theory Spec2Isabelle
  imports Complex_Main
begin

chapter \<open>Torrent lifecycle reconciliation and disk-quota enforcement\<close>

text \<open>
  A shallow embedding of the parts of the download service that keep the live swarm
  sessions, the record store and the download directory consistent:
  \<^item> \<open>utils/tracker-utils.js\<close>: \<open>normalizeInfoHash\<close>;
  \<^item> \<open>services/disk-manager.js\<close>: the \<open>DiskManager\<close> class;
  \<^item> \<open>services/db-service.js\<close>: the record store operations;
  \<^item> \<open>services/torrent-service.js\<close>: \<open>processMetadata\<close>,
    \<open>restoreDownloadsFromDatabase\<close>, \<open>toggleTorrentState\<close>;
  \<^item> \<open>server.js\<close>: the five-second progress task of \<open>setupPeriodicTasks\<close>.
\<close>

section \<open>Identifier normalisation (tracker-utils.js)\<close>









section \<open>The download directory and the quota enforcer (disk-manager.js)\<close>

subsection \<open>File system\<close>

text \<open>
  What \<open>fs.promises.stat\<close> and \<open>fs.promises.readdir\<close> can see below the download
  root: a file with its byte size, a directory with its entries in \<open>readdir\<close> order,
  an entry whose \<open>stat\<close> is rejected, and a directory whose \<open>readdir\<close> is rejected.
  A rejected promise is the value \<open>Inl IOError\<close>.
\<close>

datatype fsnode =
    File nat
  | Directory "(string \<times> fsnode) list"
  | NoStat
  | NoList

datatype ioError = IOError

fun fs_stat :: "fsnode \<Rightarrow> ioError + fsnode" where
  "fs_stat NoStat = Inl IOError"
| "fs_stat n = Inr n"

fun isDirectory :: "fsnode \<Rightarrow> bool" where
  "isDirectory (Directory es) = True"
| "isDirectory NoList = True"
| "isDirectory n = False"

fun statSize :: "fsnode \<Rightarrow> nat" where
  "statSize (File k) = k"
| "statSize n = 0"

fun fs_readdir :: "fsnode \<Rightarrow> ioError + (string \<times> fsnode) list" where
  "fs_readdir (Directory es) = Inr es"
| "fs_readdir n = Inl IOError"

text \<open>
  A top-level entry of the download root: its name, its modification time in
  milliseconds and its content.
\<close>

record item =
  iname :: string
  imtime :: int
  inode :: fsnode

text \<open>
  The \<open>DiskManager\<close> object: the entries of \<open>downloadPath\<close> in \<open>readdir\<close> order, the
  set \<open>activeTorrents\<close> and \<open>maxDiskSpace\<close>.
\<close>

record diskManager =
  items :: "item list"
  activeTorrents :: "string set"
  maxDiskSpace :: int

definition registerTorrent :: "string \<Rightarrow> diskManager \<Rightarrow> diskManager" where
  "registerTorrent infoHash dm = dm\<lparr>activeTorrents := insert infoHash (activeTorrents dm)\<rparr>"

definition unregisterTorrent :: "string \<Rightarrow> diskManager \<Rightarrow> diskManager" where
  "unregisterTorrent infoHash dm = dm\<lparr>activeTorrents := activeTorrents dm - {infoHash}\<rparr>"

subsection \<open>getDirSize\<close>

text \<open>
  \<^verbatim>\<open>
  async getDirSize(dirPath) {
    let size = 0;
    try {
      const files = await fs.promises.readdir(dirPath);
      for (const file of files) {
        const stats = await fs.promises.stat(filePath);
        if (stats.isDirectory()) size += await this.getDirSize(filePath);
        else size += stats.size;
      }
      return size;
    } catch (err) { logger.error(...); return size; }
  }
  \<close>
  The \<open>try\<close> encloses the loop: a rejected \<open>stat\<close> ends the loop and the sum so far
  (\<open>sz\<close>) is returned; a rejected \<open>readdir\<close> returns 0. The equations go by the
  shape of the node, so that the recursion is structural; \<open>getDirSize_readdir\<close> and
  \<open>sumFiles_stat\<close> below give them in terms of \<open>fs_readdir\<close> and \<open>fs_stat\<close>.
\<close>

fun getDirSize :: "fsnode \<Rightarrow> nat"
  and sumFiles :: "(string \<times> fsnode) list \<Rightarrow> nat \<Rightarrow> nat" where
  "getDirSize (Directory es) = sumFiles es 0"
| "getDirSize (File k) = 0"
| "getDirSize NoStat = 0"
| "getDirSize NoList = 0"
| "sumFiles [] sz = sz"
| "sumFiles ((file, NoStat) # es) sz = sz"
| "sumFiles ((file, File k) # es) sz = sumFiles es (sz + k)"
| "sumFiles ((file, Directory ds) # es) sz = sumFiles es (sz + getDirSize (Directory ds))"
| "sumFiles ((file, NoList) # es) sz = sumFiles es (sz + getDirSize NoList)"

definition rootNode :: "item list \<Rightarrow> fsnode" where
  "rootNode its = Directory (map (\<lambda>i. (iname i, inode i)) its)"

subsection \<open>getOldestInactiveTorrent\<close>

text \<open>
  \<^verbatim>\<open>
  for (const item of items) {
    if (this.activeTorrents.has(item)) continue;
    try {
      const stats = await fs.promises.stat(itemPath);
      if (stats.isDirectory()) dirStats.push({ path: itemPath, mtime: stats.mtime, name: item });
    } catch (err) { logger.error(...); }
  }
  dirStats.sort((a, b) => a.mtime - b.mtime);
  return dirStats.length > 0 ? dirStats[0] : null;
  \<close>
  \<open>Array.prototype.sort\<close> is stable, as \<^const>\<open>sort_key\<close> is.
\<close>

fun dirStats :: "item list \<Rightarrow> string set \<Rightarrow> item list" where
  "dirStats [] act = []"
| "dirStats (i # its) act =
     (if iname i \<in> act then dirStats its act
      else (case fs_stat (inode i) of
              Inl err \<Rightarrow> dirStats its act
            | Inr stats \<Rightarrow>
                if isDirectory stats then i # dirStats its act else dirStats its act))"

definition getOldestInactiveTorrent :: "item list \<Rightarrow> string set \<Rightarrow> item option" where
  "getOldestInactiveTorrent its act =
     (case sort_key imtime (dirStats its act) of [] \<Rightarrow> None | d # ds \<Rightarrow> Some d)"

subsection \<open>removeDirectory\<close>

text \<open>
  What a call of \<open>fs.promises.rm(dirPath, { recursive: true, force: true })\<close> does is
  not decided by the program: it is fulfilled, and the entry is gone; or it is rejected,
  at once or after it has removed a part of the tree, and the entry is left with some
  content and some modification time (the old ones, or new ones). The outcome of each
  call is an input of the model: \<open>rm n\<close> is the outcome of the call made in the
  iteration of the loop that starts with \<open>cleanupAttempts = n\<close>.
\<close>

datatype rmResult = RmDone | RmRejected fsnode int

definition afterRm :: "item list \<Rightarrow> string \<Rightarrow> rmResult \<Rightarrow> item list" where
  "afterRm its nm res =
     (case res of
        RmDone \<Rightarrow> filter (\<lambda>i. iname i \<noteq> nm) its
      | RmRejected n m \<Rightarrow> map (\<lambda>i. if iname i = nm then i\<lparr>inode := n, imtime := m\<rparr> else i) its)"

definition fs_rm :: "item list \<Rightarrow> item \<Rightarrow> rmResult \<Rightarrow> (ioError + unit) \<times> item list" where
  "fs_rm its d res =
     (case res of
        RmDone \<Rightarrow> (Inr (), afterRm its (iname d) res)
      | RmRejected n m \<Rightarrow> (Inl IOError, afterRm its (iname d) res))"

text \<open>
  \<^verbatim>\<open>
  async removeDirectory(dirPath) {
    try { await fs.promises.rm(dirPath, {...}); logger.info(...); return true; }
    catch (err) { logger.error(...); return false; }
  }
  \<close>
\<close>

definition removeDirectory :: "item list \<Rightarrow> item \<Rightarrow> rmResult \<Rightarrow> bool \<times> item list" where
  "removeDirectory its d res =
     (case fs_rm its d res of (Inl err, its') \<Rightarrow> (False, its') | (Inr u, its') \<Rightarrow> (True, its'))"

subsection \<open>performCleanup\<close>

text \<open>
  One entry of the log per iteration of the loop that found a candidate: the candidate
  was removed and freed that many bytes, or its removal failed (the error line of
  \<open>removeDirectory\<close>).
\<close>

datatype attempt = Removed string nat | RemoveFailed string

text \<open>
  \<^verbatim>\<open>
  let sizeToFree = currentSize - this.maxDiskSpace * 0.9;
  let cleanupAttempts = 0;
  while (sizeToFree > 0 && cleanupAttempts < 10) {
    cleanupAttempts++;
    const oldestTorrent = await this.getOldestInactiveTorrent();
    if (!oldestTorrent) { logger.warn(...); break; }
    const torrentSize = await this.getDirSize(oldestTorrent.path);
    const removed = await this.removeDirectory(oldestTorrent.path);
    if (removed) { sizeToFree -= torrentSize; }
  }
  \<close>
  The loop returns the root, \<open>cleanupAttempts\<close> and the log. Each iteration reads the
  root again. Numbers are exact rationals.
\<close>

function cleanupLoop ::
  "(nat \<Rightarrow> rmResult) \<Rightarrow> item list \<Rightarrow> string set \<Rightarrow> rat \<Rightarrow> nat \<Rightarrow> item list \<times> nat \<times> attempt list" where
  "cleanupLoop rm its act sizeToFree cleanupAttempts =
     (if sizeToFree > 0 \<and> cleanupAttempts < 10 then
        (case getOldestInactiveTorrent its act of
           None \<Rightarrow> (its, cleanupAttempts + 1, [])
         | Some oldestTorrent \<Rightarrow>
             (let torrentSize = getDirSize (inode oldestTorrent);
                  (removed, its') = removeDirectory its oldestTorrent (rm cleanupAttempts)
              in if removed then
                   (case cleanupLoop rm its' act (sizeToFree - of_nat torrentSize) (cleanupAttempts + 1) of
                      (r, n, tr) \<Rightarrow> (r, n, Removed (iname oldestTorrent) torrentSize # tr))
                 else
                   (case cleanupLoop rm its' act sizeToFree (cleanupAttempts + 1) of
                      (r, n, tr) \<Rightarrow> (r, n, RemoveFailed (iname oldestTorrent) # tr))))
      else (its, cleanupAttempts, []))"
  by pat_completeness auto
termination
  by (relation "measure (\<lambda>(rm, its, act, sizeToFree, cleanupAttempts). 10 - cleanupAttempts)") auto

declare cleanupLoop.simps [simp del]

text \<open>
  \<^verbatim>\<open>
  const currentSize = await this.getDirSize(this.downloadPath);
  if (!this.maxDiskSpace || this.maxDiskSpace <= 0) this.maxDiskSpace = 10737418240;
  if (currentSize < this.maxDiskSpace) return;
  ... the loop ...
  \<close>
  Every method called here catches the rejections of its own file-system calls and
  returns a value, so no error value reaches \<open>performCleanup\<close>; the result is the
  manager after the run and the log of the loop.
\<close>

definition validMaxDiskSpace :: "int \<Rightarrow> int" where
  "validMaxDiskSpace m = (if m \<le> 0 then 10737418240 else m)"

definition performCleanup :: "(nat \<Rightarrow> rmResult) \<Rightarrow> diskManager \<Rightarrow> diskManager \<times> attempt list" where
  "performCleanup rm dm =
     (let currentSize = getDirSize (rootNode (items dm));
          dm1 = dm\<lparr>maxDiskSpace := validMaxDiskSpace (maxDiskSpace dm)\<rparr>
      in if int currentSize < maxDiskSpace dm1 then (dm1, [])
         else
           (let sizeToFree = of_nat currentSize - of_int (maxDiskSpace dm1) * (9 / 10)
            in case cleanupLoop rm (items dm1) (activeTorrents dm1) sizeToFree 0 of
                 (its', n, tr) \<Rightarrow> (dm1\<lparr>items := its'\<rparr>, tr)))"

subsection \<open>Reading the log of a run\<close>

text \<open>
  The bytes the loop has subtracted from \<open>sizeToFree\<close> after a log; the directory an
  entry of the log is about; the root after the attempts of a log, the first of them made
  in iteration \<open>a\<close>; and the entry that an attempt on a candidate writes when the call
  of \<open>rm\<close> has that outcome.
\<close>

primrec bytesFreed :: "attempt list \<Rightarrow> nat" where
  "bytesFreed [] = 0"
| "bytesFreed (x # xs) =
     (case x of Removed nm n \<Rightarrow> n + bytesFreed xs | RemoveFailed nm \<Rightarrow> bytesFreed xs)"

fun dirOf :: "attempt \<Rightarrow> string" where
  "dirOf (Removed nm n) = nm"
| "dirOf (RemoveFailed nm) = nm"

fun rootAfter :: "(nat \<Rightarrow> rmResult) \<Rightarrow> nat \<Rightarrow> item list \<Rightarrow> attempt list \<Rightarrow> item list" where
  "rootAfter rm a its [] = its"
| "rootAfter rm a its (x # xs) = rootAfter rm (Suc a) (afterRm its (dirOf x) (rm a)) xs"

definition attemptOn :: "item \<Rightarrow> rmResult \<Rightarrow> attempt" where
  "attemptOn d res =
     (case res of
        RmDone \<Rightarrow> Removed (iname d) (getDirSize (inode d))
      | RmRejected n m \<Rightarrow> RemoveFailed (iname d))"

text \<open>
  The words of the specification. An eviction candidate is a directory of the root whose
  name is not a registered identifier; the oldest candidate is one with no candidate of
  an earlier modification time.
\<close>

definition candidate :: "string set \<Rightarrow> item \<Rightarrow> bool" where
  "candidate act e \<longleftrightarrow> iname e \<notin> act \<and> isDirectory (inode e)"

definition oldestCandidate :: "item list \<Rightarrow> string set \<Rightarrow> item \<Rightarrow> bool" where
  "oldestCandidate its act d \<longleftrightarrow>
     d \<in> set its \<and> candidate act d \<and>
     (\<forall>e \<in> set its. candidate act e \<longrightarrow> imtime d \<le> imtime e)"

definition noCandidate :: "item list \<Rightarrow> string set \<Rightarrow> bool" where
  "noCandidate its act \<longleftrightarrow> (\<forall>e \<in> set its. \<not> candidate act e)"

definition measuredUsage :: "diskManager \<Rightarrow> nat" where
  "measuredUsage dm = getDirSize (rootNode (items dm))"

definition quotaCeiling :: "diskManager \<Rightarrow> int" where
  "quotaCeiling dm = validMaxDiskSpace (maxDiskSpace dm)"

definition projectedUsage :: "diskManager \<Rightarrow> attempt list \<Rightarrow> rat" where
  "projectedUsage dm tr = of_nat (measuredUsage dm) - of_nat (bytesFreed tr)"

definition runOk ::
  "(nat \<Rightarrow> rmResult) \<Rightarrow> item list \<Rightarrow> string set \<Rightarrow> rat \<Rightarrow> nat \<Rightarrow> item list \<Rightarrow> attempt list \<Rightarrow> bool" where
  "runOk rm its act sizeToFree a its' tr \<longleftrightarrow>
     its' = rootAfter rm a its tr \<and>
     (\<forall>k < length tr.
        0 < sizeToFree - of_nat (bytesFreed (take k tr)) \<and> a + k < 10 \<and>
        (\<exists>d. getOldestInactiveTorrent (rootAfter rm a its (take k tr)) act = Some d \<and>
             tr ! k = attemptOn d (rm (a + k)))) \<and>
     (sizeToFree - of_nat (bytesFreed tr) \<le> 0 \<or>
      getOldestInactiveTorrent its' act = None \<or>
      10 \<le> a + length tr)"

section \<open>The record store (schema.prisma, db-service.js)\<close>

text \<open>
  The two tables of the schema. A \<open>TorrentRecord\<close> carries its \<open>TorrentFile\<close> rows (the
  relation \<open>files\<close>, as \<open>include: { files: true }\<close> returns them); the row identifier
  \<open>id\<close> is identified with the unique \<open>infoHash\<close>. Timestamps are milliseconds,
  \<open>Float\<close> columns are exact rationals, a nullable column is an option (the name: the
  empty string).
\<close>

record torrentFile =
  fpath :: string
  fname :: string
  fsize :: nat
  fprogress :: rat
  isSelected :: bool
  findex :: int

record torrentRecord =
  infoHash :: string
  name :: string
  magnetURI :: string
  tsize :: nat
  dateAdded :: int
  dateCompleted :: "int option"
  isDeleted :: bool
  isPaused :: bool
  progress :: rat
  downloadSpeed :: rat
  uploadSpeed :: rat
  downloaded :: nat
  uploaded :: nat
  timeRemaining :: "int option"
  numPeers :: nat
  numSeeds :: nat
  files :: "torrentFile list"

type_synonym store = "torrentRecord list"

text \<open>The column defaults of the schema, for a row created at time \<open>now\<close>.\<close>

definition defaultRecord :: "string \<Rightarrow> int \<Rightarrow> torrentRecord" where
  "defaultRecord h now =
     \<lparr>infoHash = h, name = [], magnetURI = [], tsize = 0, dateAdded = now,
      dateCompleted = None, isDeleted = False, isPaused = False, progress = 0,
      downloadSpeed = 0, uploadSpeed = 0, downloaded = 0, uploaded = 0,
      timeRemaining = None, numPeers = 0, numSeeds = 0, files = []\<rparr>"

definition getTorrentByInfoHash :: "store \<Rightarrow> string \<Rightarrow> torrentRecord option" where
  "getTorrentByInfoHash st h = find (\<lambda>r. infoHash r = h) st"

definition updateWhere :: "string \<Rightarrow> (torrentRecord \<Rightarrow> torrentRecord) \<Rightarrow> store \<Rightarrow> store" where
  "updateWhere h f st = map (\<lambda>r. if infoHash r = h then f r else r) st"

text \<open>
  The \<open>data\<close> object of a Prisma \<open>update\<close> or \<open>create\<close> sets the columns whose keys
  it has and leaves the others; it is modelled as the function that assigns them.
  \<open>createOrUpdateTorrent\<close> updates the row of that \<open>infoHash\<close> and clears
  \<open>isDeleted\<close>, or creates the row from the defaults.
\<close>

definition createOrUpdateTorrent ::
  "string \<Rightarrow> (torrentRecord \<Rightarrow> torrentRecord) \<Rightarrow> int \<Rightarrow> store \<Rightarrow> store" where
  "createOrUpdateTorrent h torrentData now st =
     (case getTorrentByInfoHash st h of
        Some existingRecord \<Rightarrow> updateWhere h (\<lambda>r. (torrentData r)\<lparr>isDeleted := False\<rparr>) st
      | None \<Rightarrow> st @ [torrentData (defaultRecord h now)])"

text \<open>
  \<open>updateTorrentProgress\<close>: the update of a row that does not exist is Prisma's error
  \<open>P2025\<close>, which the function turns into \<open>null\<close>; the store is unchanged.
\<close>

definition updateTorrentProgress ::
  "string \<Rightarrow> (torrentRecord \<Rightarrow> torrentRecord) \<Rightarrow> store \<Rightarrow> store" where
  "updateTorrentProgress h progressData st = updateWhere h progressData st"

text \<open>
  The objects handed to \<open>addTorrentFiles\<close>. The key \<open>index\<close> may be absent; the row then
  takes the column default \<open>@default(0)\<close>.
\<close>

record fileData =
  d_path :: string
  d_name :: string
  d_size :: nat
  d_progress :: rat
  d_isSelected :: bool
  d_index :: "int option"

definition createFile :: "fileData \<Rightarrow> torrentFile" where
  "createFile d =
     \<lparr>fpath = d_path d, fname = d_name d, fsize = d_size d, fprogress = d_progress d,
      isSelected = d_isSelected d,
      findex = (case d_index d of None \<Rightarrow> 0 | Some i \<Rightarrow> i)\<rparr>"

text \<open>
  \<open>addTorrentFiles\<close>: \<open>deleteMany\<close> of the rows of that torrent, then one \<open>create\<close> per
  element.
\<close>

definition addTorrentFiles :: "string \<Rightarrow> fileData list \<Rightarrow> store \<Rightarrow> store" where
  "addTorrentFiles torrentId fs st = updateWhere torrentId (\<lambda>r. r\<lparr>files := map createFile fs\<rparr>) st"

definition pauseTorrent :: "string \<Rightarrow> store \<Rightarrow> store" where
  "pauseTorrent h st = updateWhere h (\<lambda>r. r\<lparr>isPaused := True\<rparr>) st"

definition resumeTorrent :: "string \<Rightarrow> store \<Rightarrow> store" where
  "resumeTorrent h st = updateWhere h (\<lambda>r. r\<lparr>isPaused := False\<rparr>) st"

text \<open>
  \<^verbatim>\<open>
  where: { isDeleted: false, isPaused: false, progress: { lt: 1 } }
  \<close>
\<close>

definition getActiveTorrents :: "store \<Rightarrow> torrentRecord list" where
  "getActiveTorrents st = filter (\<lambda>r. \<not> isDeleted r \<and> \<not> isPaused r \<and> progress r < 1) st"

section \<open>Live sessions (the WebTorrent client)\<close>

text \<open>
  What the service reads and writes on the engine's objects. A file of a torrent can be
  selected and deselected. A torrent carries its metrics, its files, the attribute
  \<open>done\<close> that the progress task reads and sets, the attribute \<open>paused\<close>, and whether
  the engine's version has the methods \<open>resume\<close> and \<open>pause\<close>. The client is the list
  \<open>client.torrents\<close>; \<open>client.get\<close> returns the torrent of an identifier or
  \<open>null\<close>.
\<close>

record engineFile =
  ef_name :: string
  ef_path :: string
  ef_length :: nat
  ef_progress :: rat
  ef_selected :: bool

record torrent =
  t_infoHash :: string
  t_name :: string
  t_magnetURI :: string
  t_length :: nat
  t_progress :: rat
  t_downloadSpeed :: rat
  t_uploadSpeed :: rat
  t_downloaded :: nat
  t_uploaded :: nat
  t_numPeers :: nat
  t_numSeeds :: nat
  t_timeRemaining :: "rat option"
  t_done :: bool
  t_paused :: bool
  t_files :: "engineFile list"
  t_hasResume :: bool
  t_hasPause :: bool

type_synonym client = "torrent list"

definition clientGet :: "client \<Rightarrow> string \<Rightarrow> torrent option" where
  "clientGet cl h = find (\<lambda>t. t_infoHash t = h) cl"

definition select :: "engineFile \<Rightarrow> engineFile" where
  "select f = f\<lparr>ef_selected := True\<rparr>"

definition deselect :: "engineFile \<Rightarrow> engineFile" where
  "deselect f = f\<lparr>ef_selected := False\<rparr>"

text \<open>
  \<open>client.add(magnet, opts, ontorrent)\<close>: the engine makes a torrent for the identifier
  of the magnet link, with the files that the swarm's metadata lists, all selected, and
  then calls \<open>ontorrent\<close> with it. The metadata is a parameter: \<open>meta h\<close> are the files
  of identifier \<open>h\<close>. The stored magnet link of a record carries the record's
  identifier. The callback works on the new torrent only, so the model runs it at once.
\<close>

definition newTorrent :: "(string \<Rightarrow> engineFile list) \<Rightarrow> string \<Rightarrow> string \<Rightarrow> torrent" where
  "newTorrent meta magnet h =
     \<lparr>t_infoHash = h, t_name = [], t_magnetURI = magnet, t_length = 0, t_progress = 0,
      t_downloadSpeed = 0, t_uploadSpeed = 0, t_downloaded = 0, t_uploaded = 0,
      t_numPeers = 0, t_numSeeds = 0, t_timeRemaining = None, t_done = False,
      t_paused = False, t_files = map select (meta h), t_hasResume = False,
      t_hasPause = False\<rparr>"

definition clientAdd ::
  "(string \<Rightarrow> engineFile list) \<Rightarrow> string \<Rightarrow> string \<Rightarrow> (torrent \<Rightarrow> torrent) \<Rightarrow> client \<Rightarrow> client" where
  "clientAdd meta magnet h ontorrent cl = cl @ [ontorrent (newTorrent meta magnet h)]"

section \<open>The progress task (server.js, setupPeriodicTasks)\<close>

text \<open>
  \<^verbatim>\<open>
  const progressData = { progress: torrent.progress, downloadSpeed: ..., uploadSpeed: ...,
    downloaded: ..., uploaded: ..., numPeers: ..., numSeeds: ...,
    timeRemaining: typeof torrent.timeRemaining === 'number'
      ? (isFinite(torrent.timeRemaining) ? BigInt(Math.floor(torrent.timeRemaining)) : null)
      : null };
  if (torrent.progress === 1 && !torrent.done) {
    progressData.dateCompleted = new Date();
    torrent.done = true;
  }
  \<close>
  \<open>pd_dateCompleted\<close> is \<open>None\<close> when the object has no key \<open>dateCompleted\<close>. A
  \<open>timeRemaining\<close> that is no finite number is \<open>None\<close> on the torrent.
\<close>

record progressData =
  pd_progress :: rat
  pd_downloadSpeed :: rat
  pd_uploadSpeed :: rat
  pd_downloaded :: nat
  pd_uploaded :: nat
  pd_numPeers :: nat
  pd_numSeeds :: nat
  pd_timeRemaining :: "int option"
  pd_dateCompleted :: "int option"

definition snapshot :: "torrent \<Rightarrow> progressData" where
  "snapshot t =
     \<lparr>pd_progress = t_progress t, pd_downloadSpeed = t_downloadSpeed t,
      pd_uploadSpeed = t_uploadSpeed t, pd_downloaded = t_downloaded t,
      pd_uploaded = t_uploaded t, pd_numPeers = t_numPeers t, pd_numSeeds = t_numSeeds t,
      pd_timeRemaining = map_option floor (t_timeRemaining t),
      pd_dateCompleted = None\<rparr>"

text \<open>The assignment that a \<open>progressData\<close> object makes to the columns of a row.\<close>

definition setProgress :: "progressData \<Rightarrow> torrentRecord \<Rightarrow> torrentRecord" where
  "setProgress pd r =
     (let r1 = r\<lparr>progress := pd_progress pd, downloadSpeed := pd_downloadSpeed pd,
                 uploadSpeed := pd_uploadSpeed pd, downloaded := pd_downloaded pd,
                 uploaded := pd_uploaded pd, numPeers := pd_numPeers pd,
                 numSeeds := pd_numSeeds pd, timeRemaining := pd_timeRemaining pd\<rparr>
      in case pd_dateCompleted pd of
           None \<Rightarrow> r1
         | Some d \<Rightarrow> r1\<lparr>dateCompleted := Some d\<rparr>)"

text \<open>
  The file rows that the task creates with a record: \<open>index: index\<close> is the position
  of the file in \<open>torrent.files\<close>.
\<close>

definition fileRecords :: "engineFile list \<Rightarrow> fileData list" where
  "fileRecords fs =
     map (\<lambda>(index, file).
            \<lparr>d_path = ef_path file, d_name = ef_name file, d_size = ef_length file,
             d_progress = ef_progress file, d_isSelected = True,
             d_index = Some (int index)\<rparr>)
         (zip [0..<length fs] fs)"

text \<open>
  One torrent in one run of the task at time \<open>now\<close>: the torrent and the store after
  it, and the \<open>progressData\<close> it wrote (\<open>None\<close> when nothing was written). When the
  store has the record, its progress is updated; otherwise the record is created from the
  snapshot, with its files.
  \<^verbatim>\<open>
  if (torrent.progress === 1 && !torrent.done) { ...; torrent.done = true; }
  try {
    const existingRecord = await dbService.getTorrentByInfoHash(torrent.infoHash);
    if (existingRecord) { await dbService.updateTorrentProgress(...); } else { ... }
  } catch (torrentError) { logger.error(...); }
  \<close>
  The calls of the store can be rejected; the \<open>catch\<close> logs the error, and the store is
  as it was. \<open>storeOk\<close> says whether the store accepts the calls of this run. The
  attribute \<open>done\<close> has been set before the store is called.
\<close>

definition sampleTorrent ::
  "int \<Rightarrow> bool \<Rightarrow> torrent \<Rightarrow> store \<Rightarrow> torrent \<times> store \<times> progressData option" where
  "sampleTorrent now storeOk t st =
     (if t_infoHash t \<noteq> [] then
        (let pd0 = snapshot t;
             (pd, t') =
               (if t_progress t = 1 \<and> \<not> t_done t
                then (pd0\<lparr>pd_dateCompleted := Some now\<rparr>, t\<lparr>t_done := True\<rparr>)
                else (pd0, t))
         in if \<not> storeOk then (t', st, None)
            else case getTorrentByInfoHash st (t_infoHash t) of
              Some existingRecord \<Rightarrow>
                (t', updateTorrentProgress (t_infoHash t) (setProgress pd) st, Some pd)
            | None \<Rightarrow>
                (let torrentData =
                       (\<lambda>r. setProgress pd
                          (r\<lparr>name := (if t_name t \<noteq> [] then t_name t else ''unknown torrent''),
                             magnetURI := (if t_magnetURI t \<noteq> [] then t_magnetURI t
                                           else ''magnet:?xt=urn:btih:'' @ t_infoHash t),
                             tsize := t_length t, dateAdded := now\<rparr>));
                     st1 = createOrUpdateTorrent (t_infoHash t) torrentData now st;
                     st2 = (if t_files t \<noteq> []
                            then (case getTorrentByInfoHash st1 (t_infoHash t) of
                                    Some newRecord \<Rightarrow>
                                      addTorrentFiles (infoHash newRecord) (fileRecords (t_files t)) st1
                                  | None \<Rightarrow> st1)
                            else st1)
                 in (t', st2, Some pd)))
      else (t, st, None))"

text \<open>
  The samples of one session. The torrent object stays the same object from one run of
  the task to the next, and between the runs the engine works on it: it moves
  \<open>torrent.progress\<close>, and it sets \<open>torrent.done\<close>, which is its own flag of a
  finished download (the routes report it as the state of the torrent, and the engine
  emits the event \<open>done\<close>). The task reads this same attribute and sets it too. A
  sample gives the time of the run, the progress the engine has reached, whether the
  engine has set \<open>done\<close> by then, and whether the store accepts the calls of the run.
  The result lists what each run wrote.
\<close>

record sample =
  s_now :: int
  s_progress :: rat
  s_engineDone :: bool
  s_storeOk :: bool

fun sampleSession ::
  "sample list \<Rightarrow> torrent \<Rightarrow> store \<Rightarrow> torrent \<times> store \<times> progressData option list" where
  "sampleSession [] t st = (t, st, [])"
| "sampleSession (s # ss) t st =
     (case sampleTorrent (s_now s) (s_storeOk s)
             (t\<lparr>t_progress := s_progress s, t_done := (t_done t \<or> s_engineDone s)\<rparr>) st of
        (t1, st1, w) \<Rightarrow>
          (case sampleSession ss t1 st1 of
             (t2, st2, ws) \<Rightarrow> (t2, st2, w # ws)))"

text \<open>
  Whether a write carries a completion timestamp, and the runs, by position, whose write
  does.
\<close>

definition stamped :: "progressData option \<Rightarrow> bool" where
  "stamped w = (case w of None \<Rightarrow> False | Some pd \<Rightarrow> pd_dateCompleted pd \<noteq> None)"

definition stampedAt :: "progressData option list \<Rightarrow> nat list" where
  "stampedAt ws = filter (\<lambda>i. stamped (ws ! i)) [0..<length ws]"

section \<open>The torrent service (torrent-service.js)\<close>

subsection \<open>processMetadata: saving the torrent and its files\<close>

text \<open>
  The part of \<open>processMetadata\<close> that writes to the store (the selection of the video
  files on the live torrent is left out):
  \<^verbatim>\<open>
  dbService.createOrUpdateTorrent(torrentData).then(record => {
    if (torrent.files && torrent.files.length > 0) {
      const fileData = torrent.files.map(file => ({
        path: file.path, name: file.name, size: file.length,
        progress: 0, isSelected: true }));
      dbService.addTorrentFiles(record.id, fileData).catch(...);
    }
  }).catch(...);
  \<close>
  The objects of \<open>fileData\<close> have no key \<open>index\<close>.
\<close>

definition metadataFileData :: "engineFile list \<Rightarrow> fileData list" where
  "metadataFileData fs =
     map (\<lambda>file.
            \<lparr>d_path = ef_path file, d_name = ef_name file, d_size = ef_length file,
             d_progress = 0, d_isSelected = True, d_index = None\<rparr>) fs"

definition processMetadata :: "int \<Rightarrow> torrent \<Rightarrow> store \<Rightarrow> store" where
  "processMetadata now t st =
     (let torrentData =
            (\<lambda>r. r\<lparr>name := t_name t, magnetURI := t_magnetURI t, tsize := t_length t,
                    progress := t_progress t, downloadSpeed := t_downloadSpeed t,
                    uploadSpeed := t_uploadSpeed t, numPeers := t_numPeers t,
                    numSeeds := t_numSeeds t\<rparr>);
          st1 = createOrUpdateTorrent (t_infoHash t) torrentData now st
      in if t_files t \<noteq> []
         then addTorrentFiles (t_infoHash t) (metadataFileData (t_files t)) st1
         else st1)"

subsection \<open>restoreDownloadsFromDatabase\<close>

text \<open>
  The callback of \<open>client.add\<close> in the restore, on the file rows of the record and the
  files of the new torrent:
  \<^verbatim>\<open>
  if (torrent.files && torrent.files.length > 0 && newTorrent.files && newTorrent.files.length > 0) {
    try {
      if (torrent.files.length === newTorrent.files.length) {
        torrent.files.forEach((fileRecord, index) => {
          if (fileRecord.isSelected && index < newTorrent.files.length) {
            newTorrent.files[index].select();
          } else if (!fileRecord.isSelected && index < newTorrent.files.length) {
            newTorrent.files[index].deselect();
          }
        });
      } else { logger.warn(...); }
    } catch (fileErr) { logger.error(...); }
  }
  \<close>
  The result is the files of the new torrent and the lines logged.
\<close>

datatype restoreLog = SelectFile string | DeselectFile string | CountMismatch nat nat

definition restoreFile ::
  "engineFile list \<times> restoreLog list \<Rightarrow> nat \<times> torrentFile \<Rightarrow> engineFile list \<times> restoreLog list" where
  "restoreFile acc x =
     (case (acc, x) of
        ((fs, lg), (index, fileRecord)) \<Rightarrow>
          if isSelected fileRecord \<and> index < length fs
          then (fs[index := select (fs ! index)], lg @ [SelectFile (ef_name (fs ! index))])
          else if \<not> isSelected fileRecord \<and> index < length fs
          then (fs[index := deselect (fs ! index)], lg @ [DeselectFile (ef_name (fs ! index))])
          else (fs, lg))"

definition restoreSelection ::
  "torrentFile list \<Rightarrow> engineFile list \<Rightarrow> engineFile list \<times> restoreLog list" where
  "restoreSelection recFiles liveFiles =
     (if recFiles \<noteq> [] \<and> liveFiles \<noteq> [] then
        (if length recFiles = length liveFiles
         then foldl restoreFile (liveFiles, []) (zip [0..<length recFiles] recFiles)
         else (liveFiles, [CountMismatch (length recFiles) (length liveFiles)]))
      else (liveFiles, []))"

text \<open>
  The loop of the restore. \<open>enhance\<close> is \<open>trackerUtils.getEnhancedMagnetURI\<close>, which
  adds trackers to a magnet link and keeps its identifier.
  \<^verbatim>\<open>
  const activeTorrents = await dbService.getActiveTorrents();
  for (const torrent of activeTorrents) {
    const existingTorrent = webtorrentClient.client.get(torrent.infoHash);
    if (existingTorrent) continue;
    if (torrent.isPaused) continue;
    webtorrentClient.client.add(enhancedMagnet, {...}, (newTorrent) => { ... });
  }
  \<close>
\<close>

fun restoreLoop ::
  "(string \<Rightarrow> string) \<Rightarrow> (string \<Rightarrow> engineFile list) \<Rightarrow> torrentRecord list \<Rightarrow> client \<Rightarrow>
   client \<times> restoreLog list" where
  "restoreLoop enhance meta [] cl = (cl, [])"
| "restoreLoop enhance meta (r # rs) cl =
     (case clientGet cl (infoHash r) of
        Some existingTorrent \<Rightarrow> restoreLoop enhance meta rs cl
      | None \<Rightarrow>
          if isPaused r then restoreLoop enhance meta rs cl
          else
            (let sel = (\<lambda>newT. restoreSelection (files r) (t_files newT));
                 cl1 = clientAdd meta (enhance (magnetURI r)) (infoHash r)
                         (\<lambda>newT. newT\<lparr>t_files := fst (sel newT)\<rparr>) cl;
                 lg = snd (sel (newTorrent meta (enhance (magnetURI r)) (infoHash r)))
             in case restoreLoop enhance meta rs cl1 of
                  (cl2, lgs) \<Rightarrow> (cl2, lg @ lgs)))"

definition restoreDownloadsFromDatabase ::
  "(string \<Rightarrow> string) \<Rightarrow> (string \<Rightarrow> engineFile list) \<Rightarrow> store \<Rightarrow> client \<Rightarrow>
   client \<times> restoreLog list" where
  "restoreDownloadsFromDatabase enhance meta st cl =
     (let activeTorrents = getActiveTorrents st
      in if activeTorrents = [] then (cl, [])
         else restoreLoop enhance meta activeTorrents cl)"

text \<open>
  The selection of a file row put on a live file, and the identifier and the magnet
  link of a session.
\<close>

definition applySelection :: "engineFile \<Rightarrow> torrentFile \<Rightarrow> engineFile" where
  "applySelection f r = f\<lparr>ef_selected := isSelected r\<rparr>"

definition sessionOf :: "torrent \<Rightarrow> string \<times> string" where
  "sessionOf t = (t_infoHash t, t_magnetURI t)"

subsection \<open>toggleTorrentState\<close>

text \<open>
  What the function throws, and what it returns. Reading a property of \<open>null\<close> is a
  \<open>TypeError\<close>.
\<close>

datatype toggleError = MissingInfoHash | TorrentNotFound string | TypeError

record toggleResult =
  success :: bool
  r_infoHash :: string
  r_isPaused :: bool

definition propInfoHash :: "torrent option \<Rightarrow> toggleError + string" where
  "propInfoHash t = (case t of None \<Rightarrow> Inl TypeError | Some x \<Rightarrow> Inr (t_infoHash x))"

text \<open>
  On a live torrent: \<open>torrent.resume()\<close> where the engine has it, otherwise every file
  is selected and \<open>paused\<close> is cleared; \<open>torrent.pause()\<close> where the engine has it,
  otherwise every file is deselected and \<open>paused\<close> is set.
\<close>

definition engineResume :: "torrent \<Rightarrow> torrent" where
  "engineResume t =
     (if t_hasResume t then t\<lparr>t_paused := False\<rparr>
      else t\<lparr>t_files := map select (t_files t), t_paused := False\<rparr>)"

definition enginePause :: "torrent \<Rightarrow> torrent" where
  "enginePause t =
     (if t_hasPause t then t\<lparr>t_paused := True\<rparr>
      else t\<lparr>t_files := map deselect (t_files t), t_paused := True\<rparr>)"

definition clientUpdate :: "string \<Rightarrow> (torrent \<Rightarrow> torrent) \<Rightarrow> client \<Rightarrow> client" where
  "clientUpdate h f cl = map (\<lambda>t. if t_infoHash t = h then f t else t) cl"

text \<open>
  \<^verbatim>\<open>
  const dbTorrent = await dbService.getTorrentByInfoHash(infoHash);
  if (!dbTorrent) throw new Error(...);
  const currentlyPaused = dbTorrent.isPaused;
  const torrent = webtorrentClient.client.get(infoHash);
  if (torrent) { ...; return { success: true, infoHash, isPaused: !currentlyPaused, ... }; }
  if (currentlyPaused) {
    await dbService.resumeTorrent(infoHash);
    const enhancedMagnet = trackerUtils.getEnhancedMagnetURI(dbTorrent.magnetURI);
    webtorrentClient.client.add(enhancedMagnet, {
      path: webtorrentClient.downloadPath, maxWebConns: 50,
      storeName: torrent.infoHash
    }, (newTorrent) => { ... });
    return { success: true, infoHash, isPaused: false, ... };
  } else {
    await dbService.pauseTorrent(infoHash);
    return { success: true, infoHash, isPaused: true, ... };
  }
  \<close>
  The options object of \<open>client.add\<close> is evaluated before the call; its \<open>storeName\<close>
  reads \<open>torrent.infoHash\<close> of the \<open>torrent\<close> that \<open>client.get\<close> returned. The
  \<open>catch\<close> of the function logs the error and throws it again. The result is what the
  call returns or throws, with the store and the client after it.
\<close>

definition toggleTorrentState ::
  "(string \<Rightarrow> string) \<Rightarrow> (string \<Rightarrow> engineFile list) \<Rightarrow> string \<Rightarrow> store \<Rightarrow> client \<Rightarrow>
   (toggleError + toggleResult) \<times> store \<times> client" where
  "toggleTorrentState enhance meta h st cl =
     (if h = [] then (Inl MissingInfoHash, st, cl)
      else
        (case getTorrentByInfoHash st h of
           None \<Rightarrow> (Inl (TorrentNotFound h), st, cl)
         | Some dbTorrent \<Rightarrow>
             (let currentlyPaused = isPaused dbTorrent;
                  torrent = clientGet cl h
              in if torrent \<noteq> None then
                   (if currentlyPaused
                    then (Inr \<lparr>success = True, r_infoHash = h, r_isPaused = \<not> currentlyPaused\<rparr>,
                          resumeTorrent h st, clientUpdate h engineResume cl)
                    else (Inr \<lparr>success = True, r_infoHash = h, r_isPaused = \<not> currentlyPaused\<rparr>,
                          pauseTorrent h st, clientUpdate h enginePause cl))
                 else if currentlyPaused then
                   (let st1 = resumeTorrent h st;
                        enhancedMagnet = enhance (magnetURI dbTorrent)
                    in case propInfoHash torrent of
                         Inl err \<Rightarrow> (Inl err, st1, cl)
                       | Inr storeName \<Rightarrow>
                           (Inr \<lparr>success = True, r_infoHash = h, r_isPaused = False\<rparr>,
                            st1,
                            clientAdd meta enhancedMagnet h
                              (\<lambda>newT. newT\<lparr>t_name := t_infoHash newT\<rparr>) cl))
                 else
                   (Inr \<lparr>success = True, r_infoHash = h, r_isPaused = True\<rparr>,
                    pauseTorrent h st, cl))))"

section \<open>Example states\<close>

text \<open>A top-level directory holding one file of the given size.\<close>

definition torrentDir :: "string \<Rightarrow> int \<Rightarrow> nat \<Rightarrow> item" where
  "torrentDir nm mt sz =
     \<lparr>iname = nm, imtime = mt, inode = Directory [(''data.bin'', File sz)]\<rparr>"

text \<open>Every call of \<open>rm\<close> is fulfilled.\<close>

definition rmAlways :: "nat \<Rightarrow> rmResult" where
  "rmAlways n = RmDone"

text \<open>
  Three directories of 50, 40 and 30 bytes under a limit of 100; the first belongs to a
  registered torrent.
\<close>

definition quotaDm :: diskManager where
  "quotaDm =
     \<lparr>items = [torrentDir ''c0ffee'' 0 50, torrentDir ''old'' 1 40, torrentDir ''mid'' 2 30],
      activeTorrents = {''c0ffee''}, maxDiskSpace = 100\<rparr>"

definition idleDm :: diskManager where
  "idleDm = \<lparr>items = [torrentDir ''old'' 1 40], activeTorrents = {}, maxDiskSpace = 100\<rparr>"

text \<open>
  A torrent whose engine directory carries its display name: the record of the torrent,
  and a manager in which its identifier is registered.
\<close>

definition sintelRecord :: torrentRecord where
  "sintelRecord =
     (defaultRecord ''08ada5a7a6183aae1e09d831df6748d566095a10'' 0)
       \<lparr>name := ''Sintel'', magnetURI := ''magnet:?xt=urn:btih:08ada5a7a6183aae1e09d831df6748d566095a10''\<rparr>"

definition sintelDm :: diskManager where
  "sintelDm =
     registerTorrent (infoHash sintelRecord)
       \<lparr>items = [torrentDir (name sintelRecord) 1 120, torrentDir ''other'' 2 10],
        activeTorrents = {}, maxDiskSpace = 100\<rparr>"

text \<open>
  Two directories over the limit. In \<open>rmStuck\<close> every call of \<open>rm\<close> is rejected and
  leaves the directory as it was; in \<open>rmTouched\<close> the first call is rejected after it
  has touched the directory (its modification time is now 99), and the later calls are
  fulfilled.
\<close>

definition retryDm :: diskManager where
  "retryDm =
     \<lparr>items = [torrentDir ''stuck'' 1 50, torrentDir ''next'' 2 60],
      activeTorrents = {}, maxDiskSpace = 100\<rparr>"

definition rmStuck :: "nat \<Rightarrow> rmResult" where
  "rmStuck n = RmRejected (Directory [(''data.bin'', File 50)]) 1"

definition rmTouched :: "nat \<Rightarrow> rmResult" where
  "rmTouched n = (if n = 0 then RmRejected (Directory [(''data.bin'', File 50)]) 99 else RmDone)"

text \<open>
  A session that has just been added, and samples of the progress task at the times 10,
  20, 30 and 40 with the progress values 0.5, 1, 1, 1. In \<open>doneSamples\<close> the engine has
  set \<open>done\<close> when the progress is 1; in \<open>latchSamples\<close> nothing but the task sets
  \<open>done\<close>; in \<open>rejectedSamples\<close> nothing but the task sets it either, and the store
  rejects the calls of the run at time 20.
\<close>

definition demoTorrent :: torrent where
  "demoTorrent = newTorrent (\<lambda>h. []) ''magnet:?xt=urn:btih:c0ffee'' ''c0ffee''"

definition doneSamples :: "sample list" where
  "doneSamples =
     [\<lparr>s_now = 10, s_progress = 1 / 2, s_engineDone = False, s_storeOk = True\<rparr>,
      \<lparr>s_now = 20, s_progress = 1, s_engineDone = True, s_storeOk = True\<rparr>,
      \<lparr>s_now = 30, s_progress = 1, s_engineDone = True, s_storeOk = True\<rparr>,
      \<lparr>s_now = 40, s_progress = 1, s_engineDone = True, s_storeOk = True\<rparr>]"

definition latchSamples :: "sample list" where
  "latchSamples = map (\<lambda>s. s\<lparr>s_engineDone := False\<rparr>) doneSamples"

definition rejectedSamples :: "sample list" where
  "rejectedSamples = map (\<lambda>s. s\<lparr>s_storeOk := (s_now s \<noteq> 20)\<rparr>) latchSamples"

text \<open>
  A store with a paused record and a record that is running and incomplete; two live
  files; a file row; and a torrent whose metadata lists the two files.
\<close>

definition pausedRecord :: torrentRecord where
  "pausedRecord =
     (defaultRecord ''aaaa'' 0)\<lparr>magnetURI := ''magnet:?xt=urn:btih:aaaa'', isPaused := True\<rparr>"

definition runningRecord :: torrentRecord where
  "runningRecord =
     (defaultRecord ''bbbb'' 0)\<lparr>magnetURI := ''magnet:?xt=urn:btih:bbbb'', progress := 1 / 4\<rparr>"

definition twoLive :: "engineFile list" where
  "twoLive =
     [\<lparr>ef_name = ''a.mp4'', ef_path = ''t/a.mp4'', ef_length = 10, ef_progress = 0,
       ef_selected = True\<rparr>,
      \<lparr>ef_name = ''b.txt'', ef_path = ''t/b.txt'', ef_length = 5, ef_progress = 0,
       ef_selected = True\<rparr>]"

definition fileRow :: "string \<Rightarrow> bool \<Rightarrow> int \<Rightarrow> torrentFile" where
  "fileRow nm sel i =
     \<lparr>fpath = ''t/'' @ nm, fname = nm, fsize = 10, fprogress = 0, isSelected = sel,
      findex = i\<rparr>"

definition twoFileTorrent :: torrent where
  "twoFileTorrent = newTorrent (\<lambda>h. twoLive) ''magnet:?xt=urn:btih:cccc'' ''cccc''"

section \<open>Properties of identifier normalisation\<close>











section \<open>Properties of the quota enforcer\<close>

subsection \<open>The size of a directory\<close>

lemma getDirSize_readdir:
  "getDirSize n = (case fs_readdir n of Inl err \<Rightarrow> 0 | Inr es \<Rightarrow> sumFiles es 0)"
  by (cases n) simp_all

lemma sumFiles_stat:
  "sumFiles ((file, c) # es) sz =
     (case fs_stat c of
        Inl err \<Rightarrow> sz
      | Inr stats \<Rightarrow>
          if isDirectory stats then sumFiles es (sz + getDirSize c)
          else sumFiles es (sz + statSize stats))"
  by (cases c) simp_all

subsection \<open>The candidate\<close>

text \<open>
  What \<open>getOldestInactiveTorrent\<close> returns is an oldest candidate of the root, and it
  returns \<open>null\<close> only when the root has no candidate.
\<close>

lemma in_dirStats:
  "e \<in> set (dirStats its act) \<longleftrightarrow> e \<in> set its \<and> candidate act e"
proof (induction its)
  case Nil
  then show ?case by simp
next
  case (Cons i its)
  show ?case
  proof (cases "iname i \<in> act")
    case True
    then show ?thesis using Cons by (auto simp: candidate_def)
  next
    case False
    show ?thesis
    proof (cases "isDirectory (inode i)")
      case True
      then have "dirStats (i # its) act = i # dirStats its act"
        using False by (cases "inode i") simp_all
      then show ?thesis using Cons True False by (auto simp: candidate_def)
    next
      case d: False
      then have "dirStats (i # its) act = dirStats its act"
        using False by (cases "inode i") simp_all
      then show ?thesis using Cons d by (auto simp: candidate_def)
    qed
  qed
qed

lemma getOldestInactiveTorrent_oldest:
  assumes "getOldestInactiveTorrent its act = Some d"
  shows "oldestCandidate its act d"
proof -
  from assms obtain ds where s: "sort_key imtime (dirStats its act) = d # ds"
    by (auto simp: getOldestInactiveTorrent_def split: list.splits)
  then have "d \<in> set (sort_key imtime (dirStats its act))" by simp
  then have m: "d \<in> set (dirStats its act)" by simp
  have "sorted (map imtime (sort_key imtime (dirStats its act)))"
    by (rule sorted_sort_key)
  with s have le: "\<forall>x \<in> set ds. imtime d \<le> imtime x" by simp
  have old: "imtime d \<le> imtime e" if "e \<in> set its" "candidate act e" for e
  proof -
    from that have "e \<in> set (dirStats its act)" by (simp add: in_dirStats)
    then have "e \<in> set (sort_key imtime (dirStats its act))" by simp
    then have "e = d \<or> e \<in> set ds" unfolding s by simp
    with le show ?thesis by auto
  qed
  from m have "d \<in> set its" "candidate act d" by (simp_all add: in_dirStats)
  with old show ?thesis
    unfolding oldestCandidate_def by blast
qed

lemma getOldestInactiveTorrent_candidate:
  "getOldestInactiveTorrent its act = Some d \<Longrightarrow> d \<in> set its \<and> iname d \<notin> act"
  by (drule getOldestInactiveTorrent_oldest) (simp add: oldestCandidate_def candidate_def)

lemma getOldestInactiveTorrent_none:
  assumes "getOldestInactiveTorrent its act = None"
  shows "noCandidate its act"
proof -
  from assms have "sort_key imtime (dirStats its act) = []"
    by (simp add: getOldestInactiveTorrent_def split: list.splits)
  then have "set (sort_key imtime (dirStats its act)) = {}" by simp
  then have "set (dirStats its act) = {}" by simp
  then have "\<And>e. e \<notin> set (dirStats its act)" by simp
  then show ?thesis unfolding noCandidate_def in_dirStats by blast
qed

subsection \<open>The loop\<close>

lemma cleanupLoop_stop:
  "\<not> (0 < sizeToFree \<and> a < 10) \<Longrightarrow> cleanupLoop rm its act sizeToFree a = (its, a, [])"
  by (subst cleanupLoop.simps) auto

lemma cleanupLoop_none:
  "0 < sizeToFree \<Longrightarrow> a < 10 \<Longrightarrow> getOldestInactiveTorrent its act = None \<Longrightarrow>
   cleanupLoop rm its act sizeToFree a = (its, a + 1, [])"
  by (subst cleanupLoop.simps) simp

lemma removeDirectory_eq:
  "removeDirectory its d res = (res = RmDone, afterRm its (iname d) res)"
  by (cases res) (simp_all add: removeDirectory_def fs_rm_def)

lemma bytesFreed_attemptOn:
  "bytesFreed [attemptOn d res] = (if res = RmDone then getDirSize (inode d) else 0)"
  by (cases res) (simp_all add: attemptOn_def)

lemma dirOf_attemptOn [simp]: "dirOf (attemptOn d res) = iname d"
  by (cases res) (simp_all add: attemptOn_def)

lemma cleanupLoop_step:
  assumes "0 < sizeToFree" "a < 10" "getOldestInactiveTorrent its act = Some d"
  shows "cleanupLoop rm its act sizeToFree a =
     (case cleanupLoop rm (afterRm its (iname d) (rm a)) act
             (sizeToFree - of_nat (bytesFreed [attemptOn d (rm a)])) (a + 1) of
        (r, n, tr) \<Rightarrow> (r, n, attemptOn d (rm a) # tr))"
proof (cases "rm a")
  case RmDone
  show ?thesis
    by (subst cleanupLoop.simps)
       (simp add: assms RmDone removeDirectory_eq attemptOn_def Let_def)
next
  case (RmRejected n m)
  show ?thesis
    by (subst cleanupLoop.simps)
       (simp add: assms RmRejected removeDirectory_eq attemptOn_def Let_def)
qed

lemma bytesFreed_Cons: "bytesFreed (x # ys) = bytesFreed [x] + bytesFreed ys"
  by (simp split: attempt.splits)

lemma runOk_Nil:
  "sizeToFree \<le> 0 \<or> getOldestInactiveTorrent its act = None \<or> 10 \<le> a \<Longrightarrow>
   runOk rm its act sizeToFree a its []"
  by (auto simp: runOk_def)

lemma runOk_Cons:
  assumes s: "0 < sizeToFree" "a < 10" "getOldestInactiveTorrent its act = Some d"
    and r: "runOk rm (afterRm its (iname d) (rm a)) act
              (sizeToFree - of_nat (bytesFreed [attemptOn d (rm a)])) (a + 1) its' tr"
  shows "runOk rm its act sizeToFree a its' (attemptOn d (rm a) # tr)"
proof -
  let ?x = "attemptOn d (rm a)"
  let ?its1 = "afterRm its (iname d) (rm a)"
  note r' = r [unfolded runOk_def]
  have 1: "its' = rootAfter rm a its (?x # tr)"
    using conjunct1 [OF r'] by simp
  have 2: "\<forall>k < length (?x # tr).
        0 < sizeToFree - of_nat (bytesFreed (take k (?x # tr))) \<and> a + k < 10 \<and>
        (\<exists>d. getOldestInactiveTorrent (rootAfter rm a its (take k (?x # tr))) act = Some d \<and>
             (?x # tr) ! k = attemptOn d (rm (a + k)))"
  proof (intro allI impI)
    fix k assume kl: "k < length (?x # tr)"
    show "0 < sizeToFree - of_nat (bytesFreed (take k (?x # tr))) \<and> a + k < 10 \<and>
        (\<exists>d. getOldestInactiveTorrent (rootAfter rm a its (take k (?x # tr))) act = Some d \<and>
             (?x # tr) ! k = attemptOn d (rm (a + k)))"
    proof (cases k)
      case 0
      then show ?thesis using s by simp
    next
      case (Suc j)
      with kl have j: "j < length tr" by simp
      from conjunct1 [OF conjunct2 [OF r']] j have
        "0 < sizeToFree - of_nat (bytesFreed [?x]) - of_nat (bytesFreed (take j tr)) \<and> a + 1 + j < 10 \<and>
          (\<exists>d. getOldestInactiveTorrent (rootAfter rm (a + 1) ?its1 (take j tr)) act = Some d \<and>
               tr ! j = attemptOn d (rm (a + 1 + j)))"
        by simp
      then show ?thesis
        using Suc bytesFreed_Cons [of ?x "take j tr"] by simp
    qed
  qed
  have 3: "sizeToFree - of_nat (bytesFreed (?x # tr)) \<le> 0 \<or>
      getOldestInactiveTorrent its' act = None \<or> 10 \<le> a + length (?x # tr)"
  proof -
    from conjunct2 [OF conjunct2 [OF r']] show ?thesis
    proof (elim disjE)
      assume "sizeToFree - of_nat (bytesFreed [?x]) - of_nat (bytesFreed tr) \<le> 0"
      then have "sizeToFree - of_nat (bytesFreed (?x # tr)) \<le> 0"
        using bytesFreed_Cons [of ?x tr] by simp
      then show ?thesis by (rule disjI1)
    next
      assume "getOldestInactiveTorrent its' act = None"
      then show ?thesis by (intro disjI2 disjI1)
    next
      assume "10 \<le> a + 1 + length tr"
      then have "10 \<le> a + length (?x # tr)" by simp
      then show ?thesis by (intro disjI2)
    qed
  qed
  from 1 2 3 show ?thesis
    unfolding runOk_def by (intro conjI)
qed

lemma cleanupLoop_runOk:
  "cleanupLoop rm its act sizeToFree a = (its', n, tr) \<Longrightarrow> runOk rm its act sizeToFree a its' tr"
proof (induction "10 - a" arbitrary: its sizeToFree a its' n tr)
  case 0
  then have "\<not> (0 < sizeToFree \<and> a < 10)" by simp
  from cleanupLoop_stop [OF this, of rm its act] 0 show ?case
    by (auto intro: runOk_Nil)
next
  case (Suc m)
  show ?case
  proof (cases "0 < sizeToFree \<and> a < 10")
    case False
    from cleanupLoop_stop [OF this, of rm its act] Suc.prems False show ?thesis
      by (auto intro!: runOk_Nil)
  next
    case True
    then have s: "0 < sizeToFree" "a < 10" by simp_all
    show ?thesis
    proof (cases "getOldestInactiveTorrent its act")
      case None
      from cleanupLoop_none [OF s None, of rm] Suc.prems None show ?thesis
        by (auto intro!: runOk_Nil)
    next
      case (Some d)
      obtain r' n' tr' where rec:
        "cleanupLoop rm (afterRm its (iname d) (rm a)) act
           (sizeToFree - of_nat (bytesFreed [attemptOn d (rm a)])) (a + 1) = (r', n', tr')"
        by (metis prod_cases3)
      have m: "m = 10 - (a + 1)" using Suc.hyps(2) by simp
      from Suc.hyps(1) [OF m rec]
      have "runOk rm (afterRm its (iname d) (rm a)) act
           (sizeToFree - of_nat (bytesFreed [attemptOn d (rm a)])) (a + 1) r' tr'" .
      from runOk_Cons [OF s Some this]
      have "runOk rm its act sizeToFree a r' (attemptOn d (rm a) # tr')" .
      moreover from cleanupLoop_step [OF s Some, of rm] rec Suc.prems
      have "its' = r'" "tr = attemptOn d (rm a) # tr'" by simp_all
      ultimately show ?thesis by simp
    qed
  qed
qed


lemma cleanupLoop_length:
  assumes "cleanupLoop rm its act sizeToFree a = (its', n, tr)"
  shows "a + length tr \<le> max a 10"
proof (cases tr)
  case Nil
  then show ?thesis by simp
next
  case (Cons x xs)
  then have l: "length tr - 1 < length tr" by simp
  note ok = cleanupLoop_runOk [OF assms, unfolded runOk_def]
  note all = conjunct1 [OF conjunct2 [OF ok]]
  from spec [OF all, of "length tr - 1"] l have "a + (length tr - 1) < 10"
    by (elim impE conjE) assumption+
  then show ?thesis by simp
qed

lemma performCleanup_below:
  "int (measuredUsage dm) < quotaCeiling dm \<Longrightarrow>
   performCleanup rm dm = (dm\<lparr>maxDiskSpace := quotaCeiling dm\<rparr>, [])"
  by (simp add: performCleanup_def measuredUsage_def quotaCeiling_def Let_def)

lemma performCleanup_over:
  "\<not> int (measuredUsage dm) < quotaCeiling dm \<Longrightarrow>
   performCleanup rm dm =
     (case cleanupLoop rm (items dm) (activeTorrents dm)
             (of_nat (measuredUsage dm) - of_int (quotaCeiling dm) * (9 / 10)) 0 of
        (its', n, tr) \<Rightarrow> (dm\<lparr>maxDiskSpace := quotaCeiling dm, items := its'\<rparr>, tr))"
  by (simp add: performCleanup_def measuredUsage_def quotaCeiling_def Let_def)

text \<open>The facts of a run over the limit, in the words of the specification.\<close>

lemma performCleanup_run:
  assumes run: "performCleanup rm dm = (dm', tr)"
    and over: "\<not> int (measuredUsage dm) < quotaCeiling dm"
  shows "items dm' = rootAfter rm 0 (items dm) tr"
    and "\<forall>k < length tr.
           projectedUsage dm (take k tr) > of_int (quotaCeiling dm) * (9 / 10) \<and> k < 10 \<and>
           (\<exists>d. oldestCandidate (rootAfter rm 0 (items dm) (take k tr)) (activeTorrents dm) d \<and>
                tr ! k = attemptOn d (rm k))"
    and "projectedUsage dm tr \<le> of_int (quotaCeiling dm) * (9 / 10) \<or>
         noCandidate (items dm') (activeTorrents dm) \<or> length tr = 10"
    and "length tr \<le> 10"
proof -
  define stf :: rat where "stf = of_nat (measuredUsage dm) - of_int (quotaCeiling dm) * (9 / 10)"
  obtain r n tr' where lp0: "cleanupLoop rm (items dm) (activeTorrents dm) stf 0 = (r, n, tr')"
    by (metis prod_cases3)
  from performCleanup_over [OF over, of rm] run lp0 have res: "r = items dm'" "tr' = tr"
    by (auto simp: stf_def)
  from lp0 have lp: "cleanupLoop rm (items dm) (activeTorrents dm) stf 0 = (items dm', n, tr)"
    by (simp add: res)
  show len: "length tr \<le> 10"
    using cleanupLoop_length [OF lp] by simp
  have p: "projectedUsage dm xs - of_int (quotaCeiling dm) * (9 / 10) = stf - of_nat (bytesFreed xs)" for xs
    by (simp add: projectedUsage_def stf_def)
  note ok' = cleanupLoop_runOk [OF lp, unfolded runOk_def]
  show "items dm' = rootAfter rm 0 (items dm) tr"
    by (rule conjunct1 [OF ok'])
  have b0: "\<forall>k < length tr.
        0 < stf - of_nat (bytesFreed (take k tr)) \<and> 0 + k < 10 \<and>
        (\<exists>d. getOldestInactiveTorrent (rootAfter rm 0 (items dm) (take k tr)) (activeTorrents dm) = Some d \<and>
             tr ! k = attemptOn d (rm (0 + k)))"
    by (rule conjunct1 [OF conjunct2 [OF ok']])
  have c0: "stf - of_nat (bytesFreed tr) \<le> 0 \<or>
      getOldestInactiveTorrent (items dm') (activeTorrents dm) = None \<or>
      10 \<le> 0 + length tr"
    by (rule conjunct2 [OF conjunct2 [OF ok']])
  show "\<forall>k < length tr.
           projectedUsage dm (take k tr) > of_int (quotaCeiling dm) * (9 / 10) \<and> k < 10 \<and>
           (\<exists>d. oldestCandidate (rootAfter rm 0 (items dm) (take k tr)) (activeTorrents dm) d \<and>
                tr ! k = attemptOn d (rm k))"
  proof (intro allI impI)
    fix k assume "k < length tr"
    with b0 have k: "0 < stf - of_nat (bytesFreed (take k tr))" "k < 10"
      and "\<exists>d. getOldestInactiveTorrent (rootAfter rm 0 (items dm) (take k tr)) (activeTorrents dm) = Some d \<and>
            tr ! k = attemptOn d (rm k)"
      by simp_all
    then obtain d where
      d: "getOldestInactiveTorrent (rootAfter rm 0 (items dm) (take k tr)) (activeTorrents dm) = Some d"
        "tr ! k = attemptOn d (rm k)"
      by blast
    from getOldestInactiveTorrent_oldest [OF d(1)] d(2)
    have "\<exists>d. oldestCandidate (rootAfter rm 0 (items dm) (take k tr)) (activeTorrents dm) d \<and>
            tr ! k = attemptOn d (rm k)"
      by blast
    with k show "projectedUsage dm (take k tr) > of_int (quotaCeiling dm) * (9 / 10) \<and> k < 10 \<and>
       (\<exists>d. oldestCandidate (rootAfter rm 0 (items dm) (take k tr)) (activeTorrents dm) d \<and>
            tr ! k = attemptOn d (rm k))"
      using p [of "take k tr"] by simp
  qed
  from c0 show "projectedUsage dm tr \<le> of_int (quotaCeiling dm) * (9 / 10) \<or>
         noCandidate (items dm') (activeTorrents dm) \<or> length tr = 10"
  proof (elim disjE)
    assume "stf - of_nat (bytesFreed tr) \<le> 0"
    then have "projectedUsage dm tr \<le> of_int (quotaCeiling dm) * (9 / 10)"
      using p [of tr] by simp
    then show ?thesis by (rule disjI1)
  next
    assume "getOldestInactiveTorrent (items dm') (activeTorrents dm) = None"
    then have "noCandidate (items dm') (activeTorrents dm)"
      by (rule getOldestInactiveTorrent_none)
    then show ?thesis by (intro disjI2 disjI1)
  next
    assume "10 \<le> 0 + length tr"
    with len have "length tr = 10" by simp
    then show ?thesis by (intro disjI2)
  qed
qed

text \<open>
  Claim C3. If the measured usage is below the limit, the run removes nothing. Otherwise
  every attempt of the run is made while the projected usage is above 90% of the limit
  and fewer than ten attempts have been made, on a directory that is an oldest
  candidate of the root at that moment; and when the run ends, the projected usage is at
  most 90% of the limit, or the root has no candidate, or ten attempts have been made.
  This holds whatever the outcomes of the calls of \<open>rm\<close> are.
\<close>

theorem performCleanup_enforce:
  assumes "performCleanup rm dm = (dm', tr)"
  shows "(int (measuredUsage dm) < quotaCeiling dm \<longrightarrow> tr = [] \<and> items dm' = items dm) \<and>
         (quotaCeiling dm \<le> int (measuredUsage dm) \<longrightarrow>
            items dm' = rootAfter rm 0 (items dm) tr \<and>
            (\<forall>k < length tr.
               projectedUsage dm (take k tr) > of_int (quotaCeiling dm) * (9 / 10) \<and> k < 10 \<and>
               (\<exists>d. oldestCandidate (rootAfter rm 0 (items dm) (take k tr)) (activeTorrents dm) d \<and>
                    tr ! k = attemptOn d (rm k))) \<and>
            (projectedUsage dm tr \<le> of_int (quotaCeiling dm) * (9 / 10) \<or>
             noCandidate (items dm') (activeTorrents dm) \<or>
             length tr = 10))"
proof (cases "int (measuredUsage dm) < quotaCeiling dm")
  case True
  from performCleanup_below [OF True, of rm] assms have "tr = []" "items dm' = items dm"
    by auto
  with True show ?thesis by simp
next
  case False
  note r = performCleanup_run [OF assms False]
  show ?thesis
  proof (intro conjI impI)
    assume "int (measuredUsage dm) < quotaCeiling dm"
    with False show "tr = []" by simp
  next
    assume "int (measuredUsage dm) < quotaCeiling dm"
    with False show "items dm' = items dm" by simp
  next
    show "items dm' = rootAfter rm 0 (items dm) tr" by (rule r(1))
  next
    show "\<forall>k < length tr. projectedUsage dm (take k tr) > of_int (quotaCeiling dm) * (9 / 10) \<and> k < 10 \<and>
       (\<exists>d. oldestCandidate (rootAfter rm 0 (items dm) (take k tr)) (activeTorrents dm) d \<and>
            tr ! k = attemptOn d (rm k))" by (rule r(2))
  next
    show "projectedUsage dm tr \<le> of_int (quotaCeiling dm) * (9 / 10) \<or>
             noCandidate (items dm') (activeTorrents dm) \<or> length tr = 10" by (rule r(3))
  qed
qed

theorem performCleanup_enforce_witness:
  "performCleanup rmAlways quotaDm =
     (quotaDm\<lparr>items := [torrentDir ''c0ffee'' 0 50, torrentDir ''mid'' 2 30]\<rparr>,
      [Removed ''old'' 40]) \<and>
   quotaCeiling quotaDm \<le> int (measuredUsage quotaDm) \<and>
   [torrentDir ''c0ffee'' 0 50, torrentDir ''mid'' 2 30] =
     rootAfter rmAlways 0 (items quotaDm) [Removed ''old'' 40] \<and>
   projectedUsage quotaDm [Removed ''old'' 40] \<le> of_int (quotaCeiling quotaDm) * (9 / 10) \<and>
   getOldestInactiveTorrent (items quotaDm) (activeTorrents quotaDm) =
     Some (torrentDir ''old'' 1 40) \<and>
   performCleanup rmAlways idleDm = (idleDm, []) \<and>
   int (measuredUsage idleDm) < quotaCeiling idleDm"
proof -
  have h1: "performCleanup rmAlways quotaDm =
     (quotaDm\<lparr>items := [torrentDir ''c0ffee'' 0 50, torrentDir ''mid'' 2 30]\<rparr>,
      [Removed ''old'' 40])"
    by code_simp
  have h2: "quotaCeiling quotaDm \<le> int (measuredUsage quotaDm)"
    by code_simp
  have h3: "projectedUsage quotaDm [Removed ''old'' 40] \<le> of_int (quotaCeiling quotaDm) * (9 / 10)"
    by code_simp
  have h4: "getOldestInactiveTorrent (items quotaDm) (activeTorrents quotaDm) =
     Some (torrentDir ''old'' 1 40)"
    by code_simp
  have h5: "performCleanup rmAlways idleDm = (idleDm, [])"
    by code_simp
  have h6: "int (measuredUsage idleDm) < quotaCeiling idleDm"
    by code_simp
  note t = performCleanup_enforce [OF h1]
  from conjunct2 [OF t] h2 have
    "items (quotaDm\<lparr>items := [torrentDir ''c0ffee'' 0 50, torrentDir ''mid'' 2 30]\<rparr>) =
       rootAfter rmAlways 0 (items quotaDm) [Removed ''old'' 40]"
    by simp
  then have h7: "[torrentDir ''c0ffee'' 0 50, torrentDir ''mid'' 2 30] =
     rootAfter rmAlways 0 (items quotaDm) [Removed ''old'' 40]"
    by simp
  from h1 h2 h7 h3 h4 h5 h6 show ?thesis
    by (intro conjI)
qed

subsection \<open>Directories of registered torrents\<close>

text \<open>
  Claim C4. No directory of a registered torrent is selected or removed, whether it is
  named by the identifier or by the display name. The code compares the name of the
  directory with the identifiers in \<open>activeTorrents\<close>
  (\<open>getOldestInactiveTorrent_candidate\<close>), so a directory named by the display name is not
  protected: here the identifier of the torrent is registered, its directory
  \<open>Sintel\<close> is the candidate, and the run removes it.
\<close>

theorem registered_torrent_display_name_directory_removed:
  "infoHash sintelRecord \<in> activeTorrents sintelDm \<and>
   getOldestInactiveTorrent (items sintelDm) (activeTorrents sintelDm) =
     Some (torrentDir (name sintelRecord) 1 120) \<and>
   performCleanup rmAlways sintelDm =
     (sintelDm\<lparr>items := [torrentDir ''other'' 2 10]\<rparr>, [Removed (name sintelRecord) 120])"
  by code_simp

subsection \<open>A removal that fails\<close>

text \<open>
  Claim C5, as stated: after a removal that fails the loop goes on to the next, different
  candidate. It does not when the rejected call leaves the directory as it was: the
  directory is still the oldest candidate, every later iteration selects it again, and
  \<open>next\<close> is never tried.
\<close>

theorem failed_removal_retried_counterexample:
  "performCleanup rmStuck retryDm = (retryDm, replicate 10 (RemoveFailed ''stuck'')) \<and>
   torrentDir ''next'' 2 60 \<in> set (items retryDm)"
  by code_simp

lemma rootAfter_take_Suc:
  "k < length tr \<Longrightarrow>
   rootAfter rm a its (take (Suc k) tr) =
     afterRm (rootAfter rm a its (take k tr)) (dirOf (tr ! k)) (rm (a + k))"
proof (induction tr arbitrary: a its k)
  case Nil
  then show ?case by simp
next
  case (Cons x xs)
  show ?case
  proof (cases k)
    case 0
    then show ?thesis by simp
  next
    case (Suc j)
    with Cons.prems have "j < length xs" by simp
    from Cons.IH [OF this, of "Suc a" "afterRm its (dirOf x) (rm a)"] Suc
    show ?thesis by simp
  qed
qed

lemma bytesFreed_take_Suc:
  "k < length tr \<Longrightarrow> bytesFreed (take (Suc k) tr) = bytesFreed (take k tr) + bytesFreed [tr ! k]"
proof (induction tr arbitrary: k)
  case Nil
  then show ?case by simp
next
  case (Cons x xs)
  show ?case
  proof (cases k)
    case 0
    then show ?thesis by (simp split: attempt.splits)
  next
    case (Suc j)
    with Cons.prems have "j < length xs" by simp
    from Cons.IH [OF this] Suc show ?thesis
      by (simp split: attempt.splits)
  qed
qed

lemma afterRm_rejected_keeps:
  "d \<in> set its \<Longrightarrow> \<exists>e \<in> set (afterRm its (iname d) (RmRejected n m)). iname e = iname d"
  by (auto simp: afterRm_def intro!: bexI [of _ "d\<lparr>inode := n, imtime := m\<rparr>"] image_eqI [of _ _ d])

text \<open>
  Claim C5, amended. When a removal fails, the failure is logged and nothing is counted
  as freed; the directory is still in the root and is not excluded from the selection:
  the next iteration, if there is one, takes the candidate that is then the oldest; the
  loop ends right after the failure only when the root has no candidate or ten attempts
  have been made; and a run makes at most ten attempts. The run ends with a result.
\<close>

theorem performCleanup_failed_removal:
  assumes "performCleanup rm dm = (dm', tr)" and "k < length tr" and "tr ! k = RemoveFailed nm"
  shows "bytesFreed (take (Suc k) tr) = bytesFreed (take k tr) \<and>
         (\<exists>e \<in> set (rootAfter rm 0 (items dm) (take (Suc k) tr)). iname e = nm) \<and>
         (Suc k < length tr \<longrightarrow>
            (\<exists>d. oldestCandidate (rootAfter rm 0 (items dm) (take (Suc k) tr)) (activeTorrents dm) d \<and>
                 tr ! Suc k = attemptOn d (rm (Suc k)))) \<and>
         (length tr = Suc k \<longrightarrow> noCandidate (items dm') (activeTorrents dm) \<or> length tr = 10) \<and>
         length tr \<le> 10"
proof -
  have over: "\<not> int (measuredUsage dm) < quotaCeiling dm"
  proof
    assume "int (measuredUsage dm) < quotaCeiling dm"
    from performCleanup_below [OF this, of rm] assms(1,2) show False by simp
  qed
  note r = performCleanup_run [OF assms(1) over]
  have f: "bytesFreed (take (Suc k) tr) = bytesFreed (take k tr)"
    using bytesFreed_take_Suc [OF assms(2)] assms(3) by simp
  from r(2) assms(2) obtain d where
    d: "oldestCandidate (rootAfter rm 0 (items dm) (take k tr)) (activeTorrents dm) d"
      "tr ! k = attemptOn d (rm k)"
    by blast
  from d(2) assms(3) obtain n m where rj: "rm k = RmRejected n m" and nm: "iname d = nm"
    by (cases "rm k") (simp_all add: attemptOn_def)
  from d(1) have din: "d \<in> set (rootAfter rm 0 (items dm) (take k tr))"
    by (simp add: oldestCandidate_def)
  have root: "rootAfter rm 0 (items dm) (take (Suc k) tr) =
     afterRm (rootAfter rm 0 (items dm) (take k tr)) nm (RmRejected n m)"
    using rootAfter_take_Suc [OF assms(2), of rm 0 "items dm"] assms(3) rj by simp
  have kept: "\<exists>e \<in> set (rootAfter rm 0 (items dm) (take (Suc k) tr)). iname e = nm"
    unfolding root using afterRm_rejected_keeps [OF din, of n m] nm by simp
  have nxt: "Suc k < length tr \<longrightarrow>
            (\<exists>d. oldestCandidate (rootAfter rm 0 (items dm) (take (Suc k) tr)) (activeTorrents dm) d \<and>
                 tr ! Suc k = attemptOn d (rm (Suc k)))"
    using r(2) by simp
  have stop: "length tr = Suc k \<longrightarrow> noCandidate (items dm') (activeTorrents dm) \<or> length tr = 10"
  proof
    assume l: "length tr = Suc k"
    from r(2) assms(2) have "projectedUsage dm (take k tr) > of_int (quotaCeiling dm) * (9 / 10)"
      by simp
    moreover have "projectedUsage dm tr = projectedUsage dm (take k tr)"
      using f l by (simp add: projectedUsage_def)
    ultimately have "\<not> projectedUsage dm tr \<le> of_int (quotaCeiling dm) * (9 / 10)"
      by simp
    with r(3) show "noCandidate (items dm') (activeTorrents dm) \<or> length tr = 10"
      by (elim disjE) simp_all
  qed
  from f kept nxt stop r(4) show ?thesis
    by (intro conjI)
qed

theorem performCleanup_failed_removal_witness:
  "performCleanup rmTouched retryDm =
     (retryDm\<lparr>items := [\<lparr>iname = ''stuck'', imtime = 99,
                            inode = Directory [(''data.bin'', File 50)]\<rparr>]\<rparr>,
      [RemoveFailed ''stuck'', Removed ''next'' 60]) \<and>
   0 < length [RemoveFailed ''stuck'', Removed ''next'' 60] \<and>
   [RemoveFailed ''stuck'', Removed ''next'' 60] ! 0 = RemoveFailed ''stuck'' \<and>
   Suc 0 < length [RemoveFailed ''stuck'', Removed ''next'' 60] \<and>
   bytesFreed (take (Suc 0) [RemoveFailed ''stuck'', Removed ''next'' 60]) =
     bytesFreed (take 0 [RemoveFailed ''stuck'', Removed ''next'' 60]) \<and>
   [RemoveFailed ''stuck'', Removed ''next'' 60] ! Suc 0 =
     attemptOn (torrentDir ''next'' 2 60) (rmTouched (Suc 0)) \<and>
   length [RemoveFailed ''stuck'', Removed ''next'' 60] \<le> 10"
proof -
  let ?tr = "[RemoveFailed ''stuck'', Removed ''next'' 60]"
  have h1: "performCleanup rmTouched retryDm =
     (retryDm\<lparr>items := [\<lparr>iname = ''stuck'', imtime = 99,
                            inode = Directory [(''data.bin'', File 50)]\<rparr>]\<rparr>, ?tr)"
    by code_simp
  have h2: "0 < length ?tr"
    by simp
  have h3: "?tr ! 0 = RemoveFailed ''stuck''"
    by simp
  have h4: "Suc 0 < length ?tr"
    by simp
  have h5: "?tr ! Suc 0 = attemptOn (torrentDir ''next'' 2 60) (rmTouched (Suc 0))"
    by code_simp
  note t = performCleanup_failed_removal [OF h1 h2 h3]
  from h1 h2 h3 h4 conjunct1 [OF t] h5
    conjunct2 [OF conjunct2 [OF conjunct2 [OF conjunct2 [OF t]]]]
  show ?thesis
    by (intro conjI)
qed

section \<open>Properties of the progress task\<close>

lemma sampleTorrent_stamped:
  assumes "sampleTorrent now storeOk t st = (t', st', w)" and "stamped w"
  shows "t_progress t = 1 \<and> \<not> t_done t"
proof (rule ccontr)
  assume n: "\<not> (t_progress t = 1 \<and> \<not> t_done t)"
  have pd0: "pd_dateCompleted (snapshot t) = None" by (simp add: snapshot_def)
  from n have split: "(if t_progress t = 1 \<and> \<not> t_done t
                then ((snapshot t)\<lparr>pd_dateCompleted := Some now\<rparr>, t\<lparr>t_done := True\<rparr>)
                else (snapshot t, t)) = (snapshot t, t)"
    by (rule if_not_P)
  from assms(1) have "w = None \<or> w = Some (snapshot t)"
    unfolding sampleTorrent_def Let_def split
    by (auto split: if_splits option.splits)
  with pd0 assms(2) show False
    by (auto simp: stamped_def)
qed

lemma stampedAt_Cons:
  "stampedAt (w # ws) = (if stamped w then [0] else []) @ map Suc (stampedAt ws)"
proof -
  have "[0..<length (w # ws)] = 0 # map Suc [0..<length ws]"
    unfolding map_Suc_upt by (simp add: upt_conv_Cons del: upt_Suc)
  then show ?thesis
    by (simp add: stampedAt_def filter_map comp_def)
qed

text \<open>
  When the engine has set \<open>done\<close> by every run that sees the progress 1, no run writes
  a completion timestamp.
\<close>

lemma sampleSession_engine_done:
  assumes "list_all (\<lambda>s. s_progress s = 1 \<longrightarrow> s_engineDone s) ss"
    and "sampleSession ss t st = (t', st', ws)"
  shows "stampedAt ws = []"
  using assms
proof (induction ss arbitrary: t st t' st' ws)
  case Nil
  then show ?case by (simp add: stampedAt_def)
next
  case (Cons s ss)
  let ?t = "t\<lparr>t_progress := s_progress s, t_done := (t_done t \<or> s_engineDone s)\<rparr>"
  obtain t1 st1 w where st: "sampleTorrent (s_now s) (s_storeOk s) ?t st = (t1, st1, w)"
    by (metis prod_cases3)
  obtain t2 st2 ws2 where ss: "sampleSession ss t1 st1 = (t2, st2, ws2)"
    by (metis prod_cases3)
  from Cons.prems(2) st ss have e: "ws = w # ws2" by simp
  from Cons.prems(1) have d: "s_progress s = 1 \<longrightarrow> s_engineDone s"
    and r: "list_all (\<lambda>s. s_progress s = 1 \<longrightarrow> s_engineDone s) ss"
    by simp_all
  have w: "\<not> stamped w"
  proof
    assume "stamped w"
    from sampleTorrent_stamped [OF st this] d show False by simp
  qed
  from Cons.IH [OF r ss] have "stampedAt ws2 = []" .
  with e w show ?case by (simp add: stampedAt_Cons)
qed

text \<open>
  Claim C1. For a live session whose sampled progress reaches 1, the task sets the stored
  completion timestamp exactly once, at the first sample with progress 1. The task
  stamps when \<open>progress === 1\<close> and \<open>done\<close> is not set, and sets \<open>done\<close>. With the
  samples 0.5, 1, 1, 1: when the engine has set \<open>done\<close> on the finished torrent, no run
  stamps, and the record, with progress 1, has no completion timestamp; when nothing but
  the task sets \<open>done\<close>, the run at time 20 stamps and the record keeps that time; and
  when the store rejects the calls of that run, \<open>done\<close> is set all the same, no later run
  stamps, and the record has no completion timestamp.
\<close>

theorem completion_timestamp_not_stored:
  "stampedAt (snd (snd (sampleSession doneSamples demoTorrent []))) = [] \<and>
   map_option dateCompleted
     (getTorrentByInfoHash (fst (snd (sampleSession doneSamples demoTorrent []))) ''c0ffee'') =
     Some None \<and>
   map_option progress
     (getTorrentByInfoHash (fst (snd (sampleSession doneSamples demoTorrent []))) ''c0ffee'') =
     Some 1 \<and>
   stampedAt (snd (snd (sampleSession latchSamples demoTorrent []))) = [1] \<and>
   map_option dateCompleted
     (getTorrentByInfoHash (fst (snd (sampleSession latchSamples demoTorrent []))) ''c0ffee'') =
     Some (Some 20) \<and>
   stampedAt (snd (snd (sampleSession rejectedSamples demoTorrent []))) = [] \<and>
   map_option dateCompleted
     (getTorrentByInfoHash (fst (snd (sampleSession rejectedSamples demoTorrent []))) ''c0ffee'') =
     Some None"
  by code_simp

section \<open>Properties of the restore\<close>

subsection \<open>The sessions of a restore\<close>

lemma clientGet_None: "clientGet cl h = None \<longleftrightarrow> h \<notin> set (map t_infoHash cl)"
  by (induction cl) (auto simp: clientGet_def)

lemma t_infoHash_newTorrent [simp]: "t_infoHash (newTorrent meta magnet h) = h"
  by (simp add: newTorrent_def)

lemma restoreLoop_sessions:
  assumes "distinct (map infoHash rs)"
    and "set (map infoHash rs) \<inter> set (map t_infoHash cl) = {}"
  shows "map sessionOf (fst (restoreLoop enhance meta rs cl)) =
         map sessionOf cl @
         map (\<lambda>r. (infoHash r, enhance (magnetURI r))) (filter (\<lambda>r. \<not> isPaused r) rs)"
  using assms
proof (induction rs arbitrary: cl)
  case Nil
  then show ?case by simp
next
  case (Cons r rs)
  from Cons.prems(2) have g: "clientGet cl (infoHash r) = None"
    by (simp add: clientGet_None)
  show ?case
  proof (cases "isPaused r")
    case True
    with g Cons show ?thesis by simp
  next
    case False
    let ?cl1 = "clientAdd meta (enhance (magnetURI r)) (infoHash r)
                  (\<lambda>newT. newT\<lparr>t_files := fst (restoreSelection (files r) (t_files newT))\<rparr>) cl"
    have m: "map sessionOf ?cl1 = map sessionOf cl @ [(infoHash r, enhance (magnetURI r))]"
      by (simp add: clientAdd_def sessionOf_def newTorrent_def)
    have m': "map t_infoHash ?cl1 = map t_infoHash cl @ [infoHash r]"
      by (simp add: clientAdd_def)
    have d: "distinct (map infoHash rs)" using Cons.prems(1) by simp
    have i: "set (map infoHash rs) \<inter> set (map t_infoHash ?cl1) = {}"
      unfolding m' using Cons.prems by auto
    from Cons.IH [OF d i] have
      "map sessionOf (fst (restoreLoop enhance meta rs ?cl1)) =
         map sessionOf cl @ [(infoHash r, enhance (magnetURI r))] @
         map (\<lambda>r. (infoHash r, enhance (magnetURI r))) (filter (\<lambda>r. \<not> isPaused r) rs)"
      unfolding m by simp
    with g False show ?thesis
      by (simp add: Let_def case_prod_beta)
  qed
qed

text \<open>
  Claim C6. Over a store whose identifiers are distinct (the unique constraint of the
  schema), and with no session in the client yet, the restore creates one session for
  each record that is not deleted, not paused and has progress below 1, from the
  record's magnet link, and no other session.
\<close>

theorem restore_creates_sessions:
  assumes "distinct (map infoHash st)"
  shows "map sessionOf (fst (restoreDownloadsFromDatabase enhance meta st [])) =
         map (\<lambda>r. (infoHash r, enhance (magnetURI r)))
           (filter (\<lambda>r. \<not> isDeleted r \<and> \<not> isPaused r \<and> progress r < 1) st)"
proof -
  let ?act = "getActiveTorrents st"
  have d: "distinct (map infoHash ?act)"
    using assms by (simp add: getActiveTorrents_def distinct_map_filter)
  have p: "filter (\<lambda>r. \<not> isPaused r) ?act = ?act"
    unfolding getActiveTorrents_def filter_filter by (rule filter_cong) auto
  have "map sessionOf (fst (restoreLoop enhance meta ?act [])) =
     map (\<lambda>r. (infoHash r, enhance (magnetURI r))) ?act"
    using restoreLoop_sessions [OF d, of "[]" enhance meta] p by simp
  then have "map sessionOf (fst (restoreDownloadsFromDatabase enhance meta st [])) =
     map (\<lambda>r. (infoHash r, enhance (magnetURI r))) ?act"
    by (simp add: restoreDownloadsFromDatabase_def Let_def)
  then show ?thesis by (simp add: getActiveTorrents_def)
qed

theorem restore_creates_sessions_witness:
  "distinct (map infoHash [pausedRecord, runningRecord]) \<and>
   map sessionOf (fst (restoreDownloadsFromDatabase (\<lambda>u. u) (\<lambda>h. []) [pausedRecord, runningRecord] [])) =
     [(''bbbb'', ''magnet:?xt=urn:btih:bbbb'')]"
proof -
  have h: "distinct (map infoHash [pausedRecord, runningRecord])"
    by code_simp
  have e: "map (\<lambda>r. (infoHash r, (\<lambda>u. u) (magnetURI r)))
             (filter (\<lambda>r. \<not> isDeleted r \<and> \<not> isPaused r \<and> progress r < 1)
                [pausedRecord, runningRecord]) =
           [(''bbbb'', ''magnet:?xt=urn:btih:bbbb'')]"
    by code_simp
  from restore_creates_sessions [OF h, of "\<lambda>u. u" "\<lambda>h. []"] h
  show ?thesis
    unfolding e by (intro conjI)
qed

subsection \<open>The selection of the files\<close>

text \<open>
  Claim C7, as stated: when the number of file rows differs from the number of live
  files, a warning is logged. A record with no file rows differs in number from a
  session with two files, and nothing is logged: the callback does nothing unless both
  lists have an element.
\<close>

theorem restoreSelection_no_rows_counterexample:
  "twoLive \<noteq> [] \<and> length ([] :: torrentFile list) \<noteq> length twoLive \<and>
   snd (restoreSelection [] twoLive) = []"
  by code_simp

lemma restoreFile_fst:
  "index < length fs \<Longrightarrow>
   fst (restoreFile (fs, lg) (index, r)) = fs[index := applySelection (fs ! index) r]"
  by (simp add: restoreFile_def applySelection_def select_def deselect_def)

lemma restoreFile_fst_out:
  "\<not> index < length fs \<Longrightarrow> fst (restoreFile (fs, lg) (index, r)) = fs"
  by (simp add: restoreFile_def)

lemma foldl_restoreFile:
  assumes "length rs \<le> length fs"
  shows "length (fst (foldl restoreFile (fs, lg) (zip [0..<length rs] rs))) = length fs \<and>
         (\<forall>i < length fs.
            fst (foldl restoreFile (fs, lg) (zip [0..<length rs] rs)) ! i =
              (if i < length rs then applySelection (fs ! i) (rs ! i) else fs ! i))"
  using assms
proof (induction rs rule: rev_induct)
  case Nil
  then show ?case by simp
next
  case (snoc r rs)
  let ?n = "length rs"
  obtain fs' lg' where st: "foldl restoreFile (fs, lg) (zip [0..<?n] rs) = (fs', lg')"
    by (cases "foldl restoreFile (fs, lg) (zip [0..<?n] rs)")
  from snoc.prems have n: "?n < length fs" by simp
  with snoc.IH st have len: "length fs' = length fs"
    and nth: "\<forall>i < length fs. fs' ! i = (if i < ?n then applySelection (fs ! i) (rs ! i) else fs ! i)"
    by simp_all
  have z: "zip [0..<length (rs @ [r])] (rs @ [r]) = zip [0..<?n] rs @ [(?n, r)]"
    by simp
  have step: "fst (foldl restoreFile (fs, lg) (zip [0..<length (rs @ [r])] (rs @ [r]))) =
     fs'[?n := applySelection (fs' ! ?n) r]"
    unfolding z using st n len by (simp add: restoreFile_fst)
  have old: "fs' ! ?n = fs ! ?n" using nth n by simp
  show ?case
    unfolding step using len nth n old
    by (auto simp: nth_list_update nth_append)
qed

text \<open>
  Claim C7, amended. For a session whose file list is available: when the number of
  file rows equals the number of live files, each live file takes the selection of the
  row at its position and is otherwise unchanged; when the numbers differ, the live
  files are left as they are (all selected, as the engine made them), and the warning
  is logged when the record has a file row, and nothing is logged when it has none. The
  callback returns in every case.
\<close>

theorem restoreSelection_reapplies:
  assumes "liveFiles \<noteq> []"
  shows "(length recFiles = length liveFiles \<longrightarrow>
            length (fst (restoreSelection recFiles liveFiles)) = length liveFiles \<and>
            (\<forall>i < length liveFiles.
               fst (restoreSelection recFiles liveFiles) ! i =
                 (liveFiles ! i)\<lparr>ef_selected := isSelected (recFiles ! i)\<rparr>)) \<and>
         (length recFiles \<noteq> length liveFiles \<longrightarrow>
            fst (restoreSelection recFiles liveFiles) = liveFiles \<and>
            snd (restoreSelection recFiles liveFiles) =
              (if recFiles = [] then [] else [CountMismatch (length recFiles) (length liveFiles)]))"
proof (cases "length recFiles = length liveFiles")
  case True
  with assms have ne: "recFiles \<noteq> []" by auto
  have r: "restoreSelection recFiles liveFiles =
     foldl restoreFile (liveFiles, []) (zip [0..<length recFiles] recFiles)"
    using True ne assms by (simp add: restoreSelection_def)
  from foldl_restoreFile [of recFiles liveFiles "[]"] True
  show ?thesis unfolding r by (simp add: applySelection_def)
next
  case False
  then show ?thesis using assms by (simp add: restoreSelection_def)
qed

theorem restoreSelection_reapplies_witness:
  "twoLive \<noteq> [] \<and>
   length [fileRow ''a.mp4'' True 0, fileRow ''b.txt'' False 1, fileRow ''c.nfo'' True 2] \<noteq> length twoLive \<and>
   fst (restoreSelection [fileRow ''a.mp4'' True 0, fileRow ''b.txt'' False 1, fileRow ''c.nfo'' True 2] twoLive) = twoLive \<and>
   snd (restoreSelection [fileRow ''a.mp4'' True 0, fileRow ''b.txt'' False 1, fileRow ''c.nfo'' True 2] twoLive) =
     [CountMismatch 3 2] \<and>
   length [fileRow ''a.mp4'' True 0, fileRow ''b.txt'' False 1] = length twoLive \<and>
   fst (restoreSelection [fileRow ''a.mp4'' True 0, fileRow ''b.txt'' False 1] twoLive) ! 1 =
     (twoLive ! 1)\<lparr>ef_selected := False\<rparr>"
proof -
  let ?three = "[fileRow ''a.mp4'' True 0, fileRow ''b.txt'' False 1, fileRow ''c.nfo'' True 2]"
  let ?two = "[fileRow ''a.mp4'' True 0, fileRow ''b.txt'' False 1]"
  have h: "twoLive \<noteq> []"
    by code_simp
  have d: "length ?three \<noteq> length twoLive"
    by code_simp
  have q: "length ?two = length twoLive"
    by code_simp
  have i: "1 < length twoLive"
    by code_simp
  have s: "isSelected (?two ! 1) = False"
    by code_simp
  have n: "?three \<noteq> []" "length ?three = 3" "length twoLive = 2"
    by code_simp+
  note t3 = restoreSelection_reapplies [OF h, of ?three]
  note t2 = restoreSelection_reapplies [OF h, of ?two]
  from conjunct2 [OF t3] d
  have a: "fst (restoreSelection ?three twoLive) = twoLive"
    and b: "snd (restoreSelection ?three twoLive) = [CountMismatch 3 2]"
    using n by simp_all
  from conjunct1 [OF t2] q i
  have c: "fst (restoreSelection ?two twoLive) ! 1 = (twoLive ! 1)\<lparr>ef_selected := isSelected (?two ! 1)\<rparr>"
    by blast
  from h d a b q c [unfolded s] show ?thesis
    by (intro conjI)
qed

section \<open>Properties of toggleTorrentState\<close>

lemma toggleTorrentState_paused_no_session:
  "h \<noteq> [] \<Longrightarrow> getTorrentByInfoHash st h = Some r \<Longrightarrow> isPaused r \<Longrightarrow> clientGet cl h = None \<Longrightarrow>
   toggleTorrentState enhance meta h st cl = (Inl TypeError, resumeTorrent h st, cl)"
  by (simp add: toggleTorrentState_def propInfoHash_def Let_def)

lemma toggleTorrentState_running_no_session:
  "h \<noteq> [] \<Longrightarrow> getTorrentByInfoHash st h = Some r \<Longrightarrow> \<not> isPaused r \<Longrightarrow> clientGet cl h = None \<Longrightarrow>
   toggleTorrentState enhance meta h st cl =
     (Inr \<lparr>success = True, r_infoHash = h, r_isPaused = True\<rparr>, pauseTorrent h st, cl)"
  by (simp add: toggleTorrentState_def Let_def)

text \<open>
  Claim C8. With a record and no live session, toggling a paused record makes a session
  from the stored magnet link and returns \<open>paused = false\<close>; toggling a record that is
  not paused sets the flag and returns \<open>paused = true\<close>. The second half holds. In the
  first, the options of \<open>client.add\<close> read \<open>torrent.infoHash\<close> of the torrent that
  \<open>client.get\<close> did not find: the call throws a \<open>TypeError\<close> after the flag has been
  cleared in the store, and the client has no session.
\<close>

theorem toggle_paused_record_without_session:
  "clientGet [] ''aaaa'' = None \<and> isPaused pausedRecord \<and>
   toggleTorrentState (\<lambda>u. u) (\<lambda>h. []) ''aaaa'' [pausedRecord, runningRecord] [] =
     (Inl TypeError, [pausedRecord\<lparr>isPaused := False\<rparr>, runningRecord], []) \<and>
   toggleTorrentState (\<lambda>u. u) (\<lambda>h. []) ''bbbb'' [pausedRecord, runningRecord] [] =
     (Inr \<lparr>success = True, r_infoHash = ''bbbb'', r_isPaused = True\<rparr>,
      [pausedRecord, runningRecord\<lparr>isPaused := True\<rparr>], [])"
  by code_simp

section \<open>Properties of the file rows\<close>

text \<open>
  Claim C9. The indices of the file rows of a record are distinct. \<open>processMetadata\<close>
  hands \<open>addTorrentFiles\<close> objects without the key \<open>index\<close>, so every row takes the
  default 0: for a torrent of two files both rows have index 0. The progress task, which
  creates the rows of a record that does not exist yet, passes the position as the index.
\<close>

theorem processMetadata_file_indices:
  "map (map findex \<circ> files) (processMetadata 0 twoFileTorrent []) = [[0, 0]] \<and>
   \<not> distinct [0 :: int, 0] \<and>
   map (map findex \<circ> files) (fst (snd (sampleTorrent 0 True twoFileTorrent []))) = [[0, 1]]"
  by code_simp

end
